theory Spec2Isabelle
  imports Complex_Main "HOL-Library.Word"
begin

unbundle bit_operations_syntax

section \<open>Codec: audio-converter.go\<close>

text \<open>
  Go's \<open>byte\<close> is an 8-bit word and \<open>int16\<close> a 16-bit word read in two's complement
  (\<open>sint\<close>). Comparisons of \<open>int16\<close> values are signed (\<open>\<le>s\<close>, \<open><s\<close>), \<open>>>\<close> on an
  \<open>int16\<close> is the arithmetic shift (\<open>signed_drop_bit\<close>) and \<open><<\<close> is \<open>push_bit\<close>.
\<close>

type_synonym byte = "8 word"
type_synonym int16 = "16 word"

text \<open>Runtime panics of Go that the modelled functions can reach.\<close>

datatype go_panic =
    SendOnClosedChannel
  | CloseOfClosedChannel
  | SliceBoundsOutOfRange
  | IntegerDivideByZero
  | MakeSliceLenOutOfRange
  | NilPointerDereference

text \<open>Go's \<open>error\<close> values are modelled by their message.\<close>

type_synonym error = string

text \<open>\<open>binary.LittleEndian.Uint16\<close> and \<open>binary.LittleEndian.PutUint16\<close>.\<close>

definition le_uint16 :: "byte \<Rightarrow> byte \<Rightarrow> int16" where
  "le_uint16 lo hi = ucast lo OR push_bit 8 (ucast hi)"

definition put_uint16 :: "int16 \<Rightarrow> byte list" where
  "put_uint16 v = [ucast v, ucast (drop_bit 8 v)]"

text \<open>
  The body of the loop of \<open>decodeMulaw\<close> for one byte: complement, split into sign,
  exponent and mantissa, and rebuild the sample.
\<close>

definition decodeMulaw_sample :: "byte \<Rightarrow> int16" where
  "decodeMulaw_sample mulawByte0 =
     (let mulawByte = mulawByte0 XOR 0xFF;
          sign = (if mulawByte AND 0x80 \<noteq> 0 then - 1 else 1 :: int16);
          exponent = drop_bit 4 mulawByte AND 0x07;
          mantissa = mulawByte AND 0x0F
      in sign * push_bit (unat exponent) (push_bit 3 (ucast mantissa :: int16) + 0x84))"

definition decodeMulaw :: "byte list \<Rightarrow> error + byte list" where
  "decodeMulaw mulawData = Inr (concat (map (\<lambda>b. put_uint16 (decodeMulaw_sample b)) mulawData))"

text \<open>
  The exponent search of \<open>linearToMulaw\<close>:
  \<^verbatim>\<open>exponent := int16(7)
  for exp := int16(0); exp < 7; exp++ {
      if sample <= (int16(1) << (exp + 5)) { exponent = exp; break }
  }\<close>
  The counter \<open>exp\<close> only takes the values 0 to 7, so it is a \<open>nat\<close> here (written
  \<open>ex\<close>, as \<open>exp\<close> is the exponential function of HOL); the compared values are
  \<open>int16\<close>.
\<close>

function exponent_loop :: "int16 \<Rightarrow> nat \<Rightarrow> nat" where
  "exponent_loop sample ex =
     (if ex < 7
      then (if sample \<le>s push_bit (ex + 5) 1 then ex else exponent_loop sample (ex + 1))
      else 7)"
  by pat_completeness auto
termination
  by (relation "measure (\<lambda>(sample, ex). 7 - ex)") auto

declare exponent_loop.simps [simp del]

definition linearToMulaw :: "int16 \<Rightarrow> byte" where
  "linearToMulaw sample0 =
     (let sign = (if sample0 <s 0 then - 1 else 1 :: int16);
          sample1 = (if sample0 <s 0 then - sample0 else sample0);
          sample = (if 32635 <s sample1 then 32635 else sample1);
          exponent = exponent_loop sample 0;
          mantissa = signed_drop_bit (exponent + 1) sample;
          mulawByte = (ucast (push_bit 4 (of_nat exponent :: int16) OR mantissa) :: byte);
          mulawByte' = (if sign <s 0 then mulawByte OR 0x80 else mulawByte)
      in mulawByte' XOR 0xFF)"

definition encodeMulaw :: "byte list \<Rightarrow> error + byte list" where
  "encodeMulaw pcmData =
     (if length pcmData mod 2 \<noteq> 0
      then Inl ''PCM data length must be even (16-bit samples)''
      else Inr (map (\<lambda>i. linearToMulaw (le_uint16 (pcmData ! (i * 2)) (pcmData ! (i * 2 + 1))))
                    [0 ..< length pcmData div 2]))"

text \<open>
  \<open>resamplePCM16\<close> computes with \<open>float64\<close>. The rationals model those values: the model
  agrees with the code wherever every intermediate value is a binary64 number, which is so
  for the rates 8000 and 16000 of this converter (the ratio is 1/2 or 2, source positions
  are multiples of 1/2, and the products are half-integers far below \<open>2 ^ 53\<close>).
  Go's conversions \<open>int(f)\<close> and \<open>int16(f)\<close> truncate towards zero, as does \<open>/\<close> on \<open>int\<close>.
  The rates and lengths are Go \<open>int\<close>s (64 bits), here \<open>int\<close>: no claim depends on a
  product of a length and a rate reaching \<open>2 ^ 63\<close>.
\<close>

definition trunc_rat :: "rat \<Rightarrow> int" where
  "trunc_rat x = (if x < 0 then - \<lfloor>- x\<rfloor> else \<lfloor>x\<rfloor>)"

definition go_quot :: "int \<Rightarrow> int \<Rightarrow> int" where
  "go_quot a b = sgn a * sgn b * (\<bar>a\<bar> div \<bar>b\<bar>)"

text \<open>
  A slice expression \<open>s[low:high]\<close> panics unless \<open>0 \<le> low \<le> high \<le> cap(s)\<close>; the
  capacity of the input frame is taken to be its length.
\<close>

definition go_slice :: "'a list \<Rightarrow> int \<Rightarrow> int \<Rightarrow> go_panic + 'a list" where
  "go_slice s low high =
     (if 0 \<le> low \<and> low \<le> high \<and> high \<le> int (length s)
      then Inr (take (nat (high - low)) (drop (nat low) s))
      else Inl SliceBoundsOutOfRange)"

text \<open>The body of the loop of \<open>resamplePCM16\<close> for the output index \<open>i\<close>.\<close>

definition resample_sample :: "byte list \<Rightarrow> int \<Rightarrow> rat \<Rightarrow> int \<Rightarrow> go_panic + int16" where
  "resample_sample pcmData numInputSamples ratio i =
     (let srcPos = of_int i * ratio;
          srcIndex0 = trunc_rat srcPos;
          srcIndex = (if srcIndex0 \<ge> numInputSamples - 1 then numInputSamples - 2 else srcIndex0);
          fraction = srcPos - of_int srcIndex
      in case go_slice pcmData (srcIndex * 2) ((srcIndex + 1) * 2) of
           Inl p \<Rightarrow> Inl p
         | Inr b1 \<Rightarrow>
            (case go_slice pcmData ((srcIndex + 1) * 2) ((srcIndex + 2) * 2) of
               Inl p \<Rightarrow> Inl p
             | Inr b2 \<Rightarrow>
                (let sample1 = le_uint16 (b1 ! 0) (b1 ! 1);
                     sample2 = le_uint16 (b2 ! 0) (b2 ! 1);
                     interpolated = of_int (sint sample1) * (1 - fraction)
                                    + of_int (sint sample2) * fraction;
                     clamped = (if interpolated > 32767 then 32767
                                else if interpolated < - 32768 then - 32768
                                else interpolated)
                 in Inr (word_of_int (trunc_rat clamped)))))"

function resample_loop ::
  "byte list \<Rightarrow> int \<Rightarrow> rat \<Rightarrow> int \<Rightarrow> int \<Rightarrow> byte list \<Rightarrow> go_panic + byte list" where
  "resample_loop pcmData numInputSamples ratio numOutputSamples i outputData =
     (if i < numOutputSamples
      then (case resample_sample pcmData numInputSamples ratio i of
              Inl p \<Rightarrow> Inl p
            | Inr v \<Rightarrow> resample_loop pcmData numInputSamples ratio numOutputSamples (i + 1)
                         (outputData @ put_uint16 v))
      else Inr outputData)"
  by pat_completeness auto
termination
  by (relation "measure (\<lambda>(pcmData, numInputSamples, ratio, numOutputSamples, i, outputData).
        nat (numOutputSamples - i))") auto

text \<open>
  The result is a panic, a returned error or the output frame. With \<open>toRate = 0\<close> the
  output has no sample and the ratio (infinite in Go) is never used.
\<close>

definition resamplePCM16 :: "byte list \<Rightarrow> int \<Rightarrow> int \<Rightarrow> go_panic + (error + byte list)" where
  "resamplePCM16 pcmData fromRate toRate =
     (if length pcmData mod 2 \<noteq> 0
      then Inr (Inl ''PCM data length must be even (16-bit samples)'')
      else if fromRate = 0 then Inl IntegerDivideByZero
      else
        (let numInputSamples = int (length pcmData) div 2;
             numOutputSamples = go_quot (numInputSamples * toRate) fromRate
         in if numOutputSamples < 0 then Inl MakeSliceLenOutOfRange
            else
              (let ratio = of_int fromRate / of_int toRate
               in case resample_loop pcmData numInputSamples ratio numOutputSamples 0 [] of
                    Inl p \<Rightarrow> Inl p
                  | Inr outputData \<Rightarrow> Inr (Inr outputData))))"

text \<open>A PCM16 frame and the samples it carries.\<close>

definition pcm16_frame :: "int list \<Rightarrow> byte list" where
  "pcm16_frame xs = concat (map (\<lambda>x. put_uint16 (word_of_int x)) xs)"

definition frame_sample :: "byte list \<Rightarrow> nat \<Rightarrow> int" where
  "frame_sample pcmData k = sint (le_uint16 (pcmData ! (k * 2)) (pcmData ! (k * 2 + 1)))"

text \<open>Decoding a \<open>\<mu>\<close>-law frame and encoding the result again.\<close>

definition decode_then_encode :: "byte list \<Rightarrow> error + byte list" where
  "decode_then_encode mulawData =
     (case decodeMulaw mulawData of Inl e \<Rightarrow> Inl e | Inr pcmData \<Rightarrow> encodeMulaw pcmData)"

text \<open>
  The doubling scenario, read generously: the output has twice the samples of the input,
  every even-indexed output sample is the input sample at half the index, and every
  odd-indexed output sample is the arithmetic mean of some two samples of the input.
\<close>

definition resample_doubling_claim :: "int list \<Rightarrow> go_panic + (error + byte list) \<Rightarrow> bool" where
  "resample_doubling_claim xs r =
     (case r of
        Inr (Inr out) \<Rightarrow>
          length out = 2 * (2 * length xs) \<and>
          (\<forall>i \<in> set [0 ..< 2 * length xs].
             if even i then frame_sample out i = xs ! (i div 2)
             else (\<exists>a \<in> set xs. \<exists>b \<in> set xs. 2 * frame_sample out i = a + b))
      | _ \<Rightarrow> False)"

section \<open>Channels, connections and events\<close>

text \<open>
  A buffered Go channel of frames: the queued frames (oldest first), the capacity given to
  \<open>make\<close>, and whether \<open>close\<close> was called. Closing a closed channel and sending on a
  closed channel panic.
\<close>

type_synonym frame = "byte list"

record chan =
  ch_buf :: "frame list"
  ch_cap :: nat
  ch_closed :: bool

definition make_chan :: "nat \<Rightarrow> chan" where
  "make_chan n = \<lparr>ch_buf = [], ch_cap = n, ch_closed = False\<rparr>"

definition close_chan :: "chan \<Rightarrow> go_panic + chan" where
  "close_chan c = (if ch_closed c then Inl CloseOfClosedChannel else Inr (c\<lparr>ch_closed := True\<rparr>))"

text \<open>
  The statement
  \<^verbatim>\<open>select {
  case ch <- v:              // sent
  case <-time.After(10 * time.Millisecond):   // dropped
  }\<close>
  while nothing receives from \<open>ch\<close>: the send goes through when the buffer has room, the
  timer fires when it has none, and a closed channel makes the send case panic.
\<close>

datatype send_result = Sent | TimedOut

definition send_or_timeout :: "chan \<Rightarrow> frame \<Rightarrow> go_panic + (send_result \<times> chan)" where
  "send_or_timeout c v =
     (if ch_closed c then Inl SendOnClosedChannel
      else if length (ch_buf c) < ch_cap c then Inr (Sent, c\<lparr>ch_buf := ch_buf c @ [v]\<rparr>)
      else Inr (TimedOut, c))"

text \<open>The values \<open>json.Unmarshal\<close> stores in a \<open>map[string]interface{}\<close>.\<close>

datatype json =
    JNull
  | JBool bool
  | JNumber rat
  | JString string
  | JArray "json list"
  | JObject "(string \<times> json) list"

text \<open>
  The WebSocket connection of gorilla/websocket, as far as the session uses it: the messages
  written so far, and whether \<open>Close\<close> was called; a write after that returns an error.
\<close>

datatype ws_message = TextMessage json | CloseMessage nat string | PingMessage

record conn =
  conn_closed :: bool
  conn_written :: "ws_message list"

definition WriteMessage :: "conn \<Rightarrow> ws_message \<Rightarrow> error option \<times> conn" where
  "WriteMessage c m =
     (if conn_closed c then (Some ''use of closed network connection'', c)
      else (None, c\<lparr>conn_written := conn_written c @ [m]\<rparr>))"

definition conn_Close :: "conn \<Rightarrow> conn" where
  "conn_Close c = c\<lparr>conn_closed := True\<rparr>"

section \<open>The provider link: signalwire-audio-bridge.go\<close>

text \<open>
  \<open>SignalWireCallSession\<close>, without its timestamps and its lock. \<open>Conn\<close> is a pointer and
  may be nil.
\<close>

record SignalWireCallSession =
  cs_ID :: string
  cs_SessionID :: string
  SignalWireCallSID :: string
  Conn :: "conn option"
  AudioInChan :: chan
  AudioOutChan :: chan
  Closed :: bool
  ClosedCount :: int

text \<open>The struct literal of \<open>HandleWebSocketConnection\<close>.\<close>

definition newCallSession :: "string \<Rightarrow> string \<Rightarrow> string \<Rightarrow> conn \<Rightarrow> SignalWireCallSession" where
  "newCallSession uuid sessionID call_sid c =
     \<lparr>cs_ID = uuid, cs_SessionID = sessionID, SignalWireCallSID = call_sid,
      Conn = Some c, AudioInChan = make_chan 100, AudioOutChan = make_chan 100,
      Closed = False, ClosedCount = 0\<rparr>"

text \<open>
  \<open>handleMediaEvent\<close>. The decoder \<open>base64.StdEncoding.DecodeString\<close> of the standard
  library is the parameter \<open>decodeString\<close>. The result is a panic, or the returned error
  (\<open>None\<close> for nil) with the session after the call.
\<close>

definition handleMediaEvent ::
  "(string \<Rightarrow> error + byte list) \<Rightarrow> SignalWireCallSession \<Rightarrow> (string \<times> json) list
     \<Rightarrow> go_panic + (error option \<times> SignalWireCallSession)" where
  "handleMediaEvent decodeString cs msg =
     (case map_of msg ''media'' of
        Some (JObject media) \<Rightarrow>
          (case map_of media ''track'' of
             Some (JString track) \<Rightarrow>
               (if track \<noteq> ''inbound'' then Inr (None, cs)
                else
                  (case map_of media ''payload'' of
                     Some (JString payload) \<Rightarrow>
                       (case decodeString payload of
                          Inl err \<Rightarrow> Inr (Some (''failed to decode audio payload: '' @ err), cs)
                        | Inr audioData \<Rightarrow>
                            (case send_or_timeout (AudioInChan cs) audioData of
                               Inl p \<Rightarrow> Inl p
                             | Inr (r, c) \<Rightarrow> Inr (None, cs\<lparr>AudioInChan := c\<rparr>)))
                   | _ \<Rightarrow> Inr (Some ''media event missing payload'', cs)))
           | _ \<Rightarrow> Inr (Some ''media event missing track'', cs))
      | _ \<Rightarrow> Inr (Some ''media event missing payload'', cs))"

text \<open>
  \<open>streamAudioToSignalWire\<close> and \<open>SendEvent\<close>. The encoder
  \<open>base64.StdEncoding.EncodeToString\<close> is the parameter \<open>encodeToString\<close>; the written
  text message is kept as the JSON value that \<open>json.Marshal\<close> serialises.
\<close>

definition streamAudioToSignalWire ::
  "(byte list \<Rightarrow> string) \<Rightarrow> SignalWireCallSession \<Rightarrow> byte list
     \<Rightarrow> go_panic + (error option \<times> SignalWireCallSession)" where
  "streamAudioToSignalWire encodeToString cs audioData =
     (if Closed cs then Inr (Some ''session closed'', cs)
      else
        (let encoded = encodeToString audioData;
             msg = JObject [(''event'', JString ''media''),
                            (''media'', JObject [(''track'', JString ''outbound''),
                                                 (''payload'', JString encoded)])]
         in case Conn cs of
              None \<Rightarrow> Inl NilPointerDereference
            | Some c \<Rightarrow>
                (case WriteMessage c (TextMessage msg) of
                   (Some err, c') \<Rightarrow>
                     Inr (Some (''failed to send media message: '' @ err), cs\<lparr>Conn := Some c'\<rparr>)
                 | (None, c') \<Rightarrow> Inr (None, cs\<lparr>Conn := Some c'\<rparr>))))"

text \<open>\<open>msg[k] = v\<close> on a Go map kept as an association list.\<close>

fun map_set :: "string \<Rightarrow> json \<Rightarrow> (string \<times> json) list \<Rightarrow> (string \<times> json) list" where
  "map_set k v [] = [(k, v)]"
| "map_set k v ((k', v') # m) = (if k = k' then (k, v) # m else (k', v') # map_set k v m)"

definition SendEvent ::
  "SignalWireCallSession \<Rightarrow> string \<Rightarrow> (string \<times> json) list
     \<Rightarrow> go_panic + (error option \<times> SignalWireCallSession)" where
  "SendEvent cs eventType data =
     (if Closed cs then Inr (Some ''session closed'', cs)
      else
        (let msg = foldl (\<lambda>m (k, v). map_set k v m) [(''event'', JString eventType)] data
         in case Conn cs of
              None \<Rightarrow> Inl NilPointerDereference
            | Some c \<Rightarrow>
                (case WriteMessage c (TextMessage (JObject msg)) of
                   (err, c') \<Rightarrow> Inr (err, cs\<lparr>Conn := Some c'\<rparr>))))"

text \<open>\<open>SignalWireCallSession.Close\<close>.\<close>

definition Close :: "SignalWireCallSession \<Rightarrow> go_panic + (error option \<times> SignalWireCallSession)" where
  "Close cs =
     (if Closed cs then Inr (None, cs)
      else
        (let cs1 = cs\<lparr>Closed := True, ClosedCount := ClosedCount cs + 1\<rparr>
         in case close_chan (AudioInChan cs1) of
              Inl p \<Rightarrow> Inl p
            | Inr cin \<Rightarrow>
                (case close_chan (AudioOutChan cs1) of
                   Inl p \<Rightarrow> Inl p
                 | Inr cout \<Rightarrow>
                     (let cs2 = cs1\<lparr>AudioInChan := cin, AudioOutChan := cout\<rparr>
                      in Inr (None,
                           (case Conn cs2 of
                              None \<Rightarrow> cs2
                            | Some c \<Rightarrow>
                                cs2\<lparr>Conn := Some (conn_Close
                                       (snd (WriteMessage c (CloseMessage 1000 []))))\<rparr>))))))"

section \<open>The session registry and the routers: AudioStreamBridge\<close>

record AudioFormat =
  SampleRate :: int
  Channels :: int
  Encoding :: string
  BitDepth :: int

text \<open>
  \<open>BridgeMetrics\<close>, without its lock. The fields are \<open>int64\<close>; they are \<open>int\<close> here, since
  the counters grow by one per frame and the latencies are microsecond counts of a
  \<open>time.Duration\<close> (at most \<open>2 ^ 63 div 1000\<close>), so that \<open>AverageLatencyUs * 9 + latencyUs\<close>
  stays below \<open>2 ^ 63\<close>.
\<close>

record BridgeMetrics =
  PhoneToAIPacketsSent :: int
  PhoneToAIPacketsDropped :: int
  AIToPhonePacketsSent :: int
  AIToPhonePacketsDropped :: int
  AverageLatencyUs :: int
  MaxLatencyUs :: int
  BytesReceived :: int
  BytesSent :: int
  DroppedPackets :: int
  Overruns :: int
  Underruns :: int

text \<open>
  \<open>BridgeSession\<close>, without its timestamps and its lock. \<open>SignalWireSession\<close> is the
  pointer to the linked call session, kept as that session's identifier (\<open>None\<close> for nil);
  \<open>cancelled\<close> records that the session's context is done: its \<open>cancel\<close> function was
  called, or the bridge's context, from which it was derived, was already cancelled.
\<close>

record BridgeSession =
  ID :: string
  SessionID :: string
  SignalWireSession :: "string option"
  phoneToAIChan :: chan
  aiToPhoneChan :: chan
  InputFormat :: AudioFormat
  OutputFormat :: AudioFormat
  Active :: bool
  Streaming :: bool
  Metrics :: BridgeMetrics
  cancelled :: bool

text \<open>
  \<open>AudioStreamBridge\<close>. Its map holds pointers: \<open>sessions\<close> maps a session identifier to an
  address and \<open>heap\<close> maps an address to the session stored there, so that a session
  removed from the map is still there for whoever holds the pointer. \<open>next_addr\<close> is the
  address of the next allocation.
\<close>

record AudioStreamBridge =
  sessions :: "string \<Rightarrow> nat option"
  heap :: "nat \<Rightarrow> BridgeSession option"
  next_addr :: nat
  bridge_cancelled :: bool

definition NewAudioStreamBridge :: AudioStreamBridge where
  "NewAudioStreamBridge =
     \<lparr>sessions = (\<lambda>k. None), heap = (\<lambda>a. None), next_addr = 0, bridge_cancelled = False\<rparr>"

definition zero_metrics :: BridgeMetrics where
  "zero_metrics =
     \<lparr>PhoneToAIPacketsSent = 0, PhoneToAIPacketsDropped = 0, AIToPhonePacketsSent = 0,
      AIToPhonePacketsDropped = 0, AverageLatencyUs = 0, MaxLatencyUs = 0, BytesReceived = 0,
      BytesSent = 0, DroppedPackets = 0, Overruns = 0, Underruns = 0\<rparr>"

text \<open>The struct literal of \<open>CreateSession\<close>.\<close>

definition newBridgeSession :: "string \<Rightarrow> bool \<Rightarrow> BridgeSession" where
  "newBridgeSession sessionID parent_cancelled =
     \<lparr>ID = sessionID, SessionID = sessionID, SignalWireSession = None,
      phoneToAIChan = make_chan 500, aiToPhoneChan = make_chan 500,
      InputFormat = \<lparr>SampleRate = 8000, Channels = 1, Encoding = ''mulaw'', BitDepth = 8\<rparr>,
      OutputFormat = \<lparr>SampleRate = 8000, Channels = 1, Encoding = ''mulaw'', BitDepth = 8\<rparr>,
      Active = True, Streaming = False, Metrics = zero_metrics,
      cancelled = parent_cancelled\<rparr>"

text \<open>\<open>CreateSession\<close> returns the error or the pointer to the new session.\<close>

definition CreateSession :: "AudioStreamBridge \<Rightarrow> string \<Rightarrow> (error + nat) \<times> AudioStreamBridge" where
  "CreateSession bridge sessionID =
     (case sessions bridge sessionID of
        Some a \<Rightarrow> (Inl (''session already exists: '' @ sessionID), bridge)
      | None \<Rightarrow>
          (let a = next_addr bridge;
               session = newBridgeSession sessionID (bridge_cancelled bridge)
           in (Inr a,
               bridge\<lparr>sessions := (sessions bridge)(sessionID := Some a),
                      heap := (heap bridge)(a := Some session),
                      next_addr := a + 1\<rparr>)))"

text \<open>\<open>GetSession\<close> returns the pointer stored in the map, \<open>None\<close> for nil.\<close>

definition GetSession :: "AudioStreamBridge \<Rightarrow> string \<Rightarrow> nat option" where
  "GetSession bridge sessionID = sessions bridge sessionID"

text \<open>\<open>CloseSession\<close>.\<close>

definition CloseSession ::
  "AudioStreamBridge \<Rightarrow> string \<Rightarrow> go_panic + (error option \<times> AudioStreamBridge)" where
  "CloseSession bridge sessionID =
     (case sessions bridge sessionID of
        None \<Rightarrow> Inr (Some (''session not found: '' @ sessionID), bridge)
      | Some a \<Rightarrow>
          (case heap bridge a of
             None \<Rightarrow> Inl NilPointerDereference
           | Some session \<Rightarrow>
               (let session1 = session\<lparr>Active := False, cancelled := True\<rparr>
                in case close_chan (phoneToAIChan session1) of
                     Inl p \<Rightarrow> Inl p
                   | Inr c1 \<Rightarrow>
                       (case close_chan (aiToPhoneChan session1) of
                          Inl p \<Rightarrow> Inl p
                        | Inr c2 \<Rightarrow>
                            Inr (None,
                              bridge\<lparr>heap := (heap bridge)
                                        (a := Some (session1\<lparr>phoneToAIChan := c1,
                                                             aiToPhoneChan := c2\<rparr>)),
                                     sessions := (sessions bridge)(sessionID := None)\<rparr>)))))"

text \<open>\<open>CloseSession\<close> called \<open>n\<close> times in a row; the errors returned, in order.\<close>

fun CloseSession_times ::
  "nat \<Rightarrow> AudioStreamBridge \<Rightarrow> string \<Rightarrow> go_panic + (error option list \<times> AudioStreamBridge)" where
  "CloseSession_times 0 bridge sessionID = Inr ([], bridge)"
| "CloseSession_times (Suc n) bridge sessionID =
     (case CloseSession bridge sessionID of
        Inl p \<Rightarrow> Inl p
      | Inr (err, bridge') \<Rightarrow>
          (case CloseSession_times n bridge' sessionID of
             Inl p \<Rightarrow> Inl p
           | Inr (errs, bridge'') \<Rightarrow> Inr (err # errs, bridge'')))"

text \<open>\<open>updateLatency\<close>; \<open>/\<close> on \<open>int64\<close> truncates towards zero.\<close>

definition updateLatency :: "BridgeSession \<Rightarrow> int \<Rightarrow> BridgeSession" where
  "updateLatency session latencyUs =
     (let m = Metrics session;
          m1 = (if AverageLatencyUs m = 0 then m\<lparr>AverageLatencyUs := latencyUs\<rparr>
                else m\<lparr>AverageLatencyUs := go_quot (AverageLatencyUs m * 9 + latencyUs) 10\<rparr>);
          m2 = (if latencyUs > MaxLatencyUs m1 then m1\<lparr>MaxLatencyUs := latencyUs\<rparr> else m1)
      in session\<lparr>Metrics := m2\<rparr>)"


text \<open>\<open>processIncomingAudio\<close> and \<open>processOutgoingAudio\<close> pass the audio through.\<close>

definition processIncomingAudio :: "byte list \<Rightarrow> BridgeSession \<Rightarrow> error + byte list" where
  "processIncomingAudio audioData session = Inr audioData"


text \<open>
  The body of the loop of \<open>routePhoneToAI\<close> for one chunk received from \<open>AudioInChan\<close>;
  \<open>latency\<close> is what \<open>time.Since(startTime).Microseconds()\<close> returns after the send.
\<close>

definition routePhoneToAI_chunk :: "BridgeSession \<Rightarrow> frame \<Rightarrow> int \<Rightarrow> go_panic + BridgeSession" where
  "routePhoneToAI_chunk session audioChunk latency =
     (if length audioChunk = 0 then Inr session
      else
        (case processIncomingAudio audioChunk session of
           Inl err \<Rightarrow> Inr session
         | Inr processedAudio \<Rightarrow>
             (case send_or_timeout (phoneToAIChan session) processedAudio of
                Inl p \<Rightarrow> Inl p
              | Inr (Sent, c) \<Rightarrow>
                  Inr (updateLatency
                         (session\<lparr>phoneToAIChan := c,
                                  Metrics := (Metrics session)
                                    \<lparr>PhoneToAIPacketsSent := PhoneToAIPacketsSent (Metrics session) + 1,
                                     BytesReceived := BytesReceived (Metrics session)
                                                      + int (length audioChunk)\<rparr>\<rparr>)
                         latency)
              | Inr (TimedOut, c) \<Rightarrow>
                  Inr (session\<lparr>Metrics := (Metrics session)
                         \<lparr>PhoneToAIPacketsDropped := PhoneToAIPacketsDropped (Metrics session) + 1,
                          DroppedPackets := DroppedPackets (Metrics session) + 1\<rparr>\<rparr>))))"

text \<open>
  The loop of \<open>routePhoneToAI\<close> after a call session was linked. Each turn of the
  \<open>select\<close> takes the next event: the session's context is done, or a chunk arrived
  (paired with the latency measured for it). When the events run out the loop waits.
\<close>

datatype route_event = CtxDone | Chunk frame int

fun routePhoneToAI_loop :: "BridgeSession \<Rightarrow> route_event list \<Rightarrow> go_panic + BridgeSession" where
  "routePhoneToAI_loop session [] = Inr session"
| "routePhoneToAI_loop session (CtxDone # es) = Inr (session\<lparr>Streaming := False\<rparr>)"
| "routePhoneToAI_loop session (Chunk audioChunk latency # es) =
     (case routePhoneToAI_chunk session audioChunk latency of
        Inl p \<Rightarrow> Inl p
      | Inr session' \<Rightarrow> routePhoneToAI_loop session' es)"

definition routePhoneToAI :: "BridgeSession \<Rightarrow> route_event list \<Rightarrow> go_panic + BridgeSession" where
  "routePhoneToAI session es =
     (case SignalWireSession session of
        None \<Rightarrow> Inr session
      | Some swSession \<Rightarrow> routePhoneToAI_loop (session\<lparr>Streaming := True\<rparr>) es)"


section \<open>Statements to be checked against the code\<close>

text \<open>\<open>Close\<close> called \<open>n\<close> times in a row on a call session.\<close>

fun Close_times :: "nat \<Rightarrow> SignalWireCallSession \<Rightarrow> go_panic + SignalWireCallSession" where
  "Close_times 0 cs = Inr cs"
| "Close_times (Suc n) cs =
     (case Close cs of Inl p \<Rightarrow> Inl p | Inr (err, cs') \<Rightarrow> Close_times n cs')"

text \<open>The second of two calls of \<open>Close\<close> adds one to \<open>ClosedCount\<close>.\<close>

definition second_Close_bumps_count :: "SignalWireCallSession \<Rightarrow> bool" where
  "second_Close_bumps_count cs =
     (case Close cs of
        Inl p \<Rightarrow> False
      | Inr (err1, cs1) \<Rightarrow>
          (case Close cs1 of
             Inl p \<Rightarrow> False
           | Inr (err2, cs2) \<Rightarrow> ClosedCount cs2 = ClosedCount cs1 + 1))"

text \<open>None of \<open>n\<close> calls of \<open>CloseSession\<close> in a row returns an error.\<close>

definition no_close_errors :: "nat \<Rightarrow> AudioStreamBridge \<Rightarrow> string \<Rightarrow> bool" where
  "no_close_errors n bridge sessionID =
     (case CloseSession_times n bridge sessionID of
        Inl p \<Rightarrow> False
      | Inr (errs, bridge') \<Rightarrow> list_all (\<lambda>err. err = None) errs)"












section \<open>Properties of the codec\<close>

text \<open>
  C2. Decoding a \<open>\<mu>\<close>-law byte and encoding the sample again should give the byte back.
  On the frame \<open>[0x00, 0x7F, 0x80, 0xFF]\<close> of the spec's own scenario the code returns
  \<open>[0x01, 0x47, 0x81, 0xC7]\<close>: no byte of the frame survives. The decoder adds the bias
  \<open>0x84\<close> and shifts the mantissa by 3, the encoder takes no bias away and shifts the
  magnitude by \<open>exponent + 1\<close>.
\<close>

theorem mulaw_roundtrip_fails:
  "decode_then_encode [0x00, 0x7F, 0x80, 0xFF] = Inr [0x01, 0x47, 0x81, 0xC7]"
  by code_simp

text \<open>
  C4, as stated. The last output sample of the frame \<open>[0, 10000, 0, -10000]\<close>, doubled
  from 8000 Hz to 16000 Hz, is \<open>-15000\<close>: the source index is clamped to the last pair of
  samples before the fraction is taken, so the fraction is 3/2 and the sample is
  extrapolated. It is the mean of no two input samples, so the claim fails at index 7.
\<close>

theorem resample_doubling_counterexample:
  "\<not> resample_doubling_claim [0, 10000, 0, - 10000]
       (resamplePCM16 (pcm16_frame [0, 10000, 0, - 10000]) 8000 16000)"
  by code_simp

text \<open>
  C4, amended. Resampling the frame \<open>[0, 10000, 0, -10000]\<close> from 8000 Hz to 16000 Hz
  yields 8 samples (16 bytes); the samples at the even indices 0, 2, 4, 6 are the input
  samples 0, 1, 2, 3, and the samples at the odd indices 1, 3, 5, which lie between two
  input samples, are the arithmetic means of those two.
\<close>

theorem resample_doubling_interior:
  "\<exists>out. resamplePCM16 (pcm16_frame [0, 10000, 0, - 10000]) 8000 16000 = Inr (Inr out)
     \<and> length out = 2 * 8
     \<and> frame_sample out 0 = 0 \<and> frame_sample out 2 = 10000
     \<and> frame_sample out 4 = 0 \<and> frame_sample out 6 = - 10000
     \<and> 2 * frame_sample out 1 = 0 + 10000
     \<and> 2 * frame_sample out 3 = 10000 + 0
     \<and> 2 * frame_sample out 5 = 0 + (- 10000)"
proof -
  have run: "resamplePCM16 (pcm16_frame [0, 10000, 0, - 10000]) 8000 16000
      = Inr (Inr [0, 0, 136, 19, 16, 39, 136, 19, 0, 0, 120, 236, 240, 216, 104, 197])"
    by code_simp
  have samples: "map (frame_sample [0, 0, 136, 19, 16, 39, 136, 19, 0, 0, 120, 236, 240, 216, 104, 197])
      [0, 1, 2, 3, 4, 5, 6] = [0, 5000, 10000, 5000, 0, - 5000, - 10000]"
    by code_simp
  from samples show ?thesis
    unfolding run by simp
qed

text \<open>
  C10. A frame of one 16-bit sample, resampled from 8000 Hz to 16000 Hz, should be read
  within its bounds. For the output index 0 the source index 0 is not below
  \<open>numInputSamples - 1 = 0\<close>, so the bounds check sets it to \<open>numInputSamples - 2 = -1\<close>,
  and the slice \<open>pcmData[-2:0]\<close> panics.
\<close>

theorem resample_single_sample_panics:
  "resamplePCM16 [0x01, 0x00] 8000 16000 = Inl SliceBoundsOutOfRange"
  by code_simp


section \<open>Properties of the provider link\<close>



lemma Close_first:
  assumes "\<not> Closed cs" "\<not> ch_closed (AudioInChan cs)" "\<not> ch_closed (AudioOutChan cs)"
  shows "\<exists>cs1. Close cs = Inr (None, cs1) \<and> Closed cs1 \<and> ClosedCount cs1 = ClosedCount cs + 1
           \<and> ch_closed (AudioInChan cs1) \<and> ch_closed (AudioOutChan cs1)"
  using assms by (simp add: Close_def close_chan_def Let_def split: option.splits)

lemma Close_again: "Closed cs \<Longrightarrow> Close cs = Inr (None, cs)"
  by (simp add: Close_def)

lemma Close_times_closed: "Closed cs \<Longrightarrow> Close_times n cs = Inr cs"
  by (induction n) (simp_all add: Close_again)

text \<open>
  C6, as stated. On a fresh call session the first \<open>Close\<close> sets \<open>ClosedCount\<close> to 1 and
  the second returns before the increment: the count is still 1.
\<close>

theorem second_Close_counterexample:
  "\<not> second_Close_bumps_count
       (newCallSession ''L1'' ''S1'' ''CA1'' \<lparr>conn_closed = False, conn_written = []\<rparr>)"
  by (simp add: second_Close_bumps_count_def Close_def newCallSession_def make_chan_def
      close_chan_def)

text \<open>
  C6, amended. On an open call session the first \<open>Close\<close> succeeds, sets \<open>Closed\<close> and adds
  one to \<open>ClosedCount\<close>; every further \<open>Close\<close> returns nil and changes nothing, the count
  included, so any number of calls leaves the state of the first; and after it
  \<open>streamAudioToSignalWire\<close> and \<open>SendEvent\<close> return the error \<open>session closed\<close> without
  touching the session.
\<close>

theorem Close_idempotent_writes_fail:
  assumes "\<not> Closed cs" and "\<not> ch_closed (AudioInChan cs)" and "\<not> ch_closed (AudioOutChan cs)"
  shows "\<exists>cs1. Close cs = Inr (None, cs1)
           \<and> Closed cs1 \<and> ClosedCount cs1 = ClosedCount cs + 1
           \<and> Close cs1 = Inr (None, cs1)
           \<and> Close_times (Suc n) cs = Inr cs1
           \<and> streamAudioToSignalWire encodeToString cs1 audioData = Inr (Some ''session closed'', cs1)
           \<and> SendEvent cs1 eventType data = Inr (Some ''session closed'', cs1)"
proof -
  from Close_first [OF assms] obtain cs1 where
    c: "Close cs = Inr (None, cs1)" and cl: "Closed cs1"
    and cnt: "ClosedCount cs1 = ClosedCount cs + 1"
    by blast
  have "Close_times (Suc n) cs = Inr cs1"
    using c cl by (simp add: Close_times_closed)
  moreover have "streamAudioToSignalWire encodeToString cs1 audioData = Inr (Some ''session closed'', cs1)"
    using cl by (simp add: streamAudioToSignalWire_def)
  moreover have "SendEvent cs1 eventType data = Inr (Some ''session closed'', cs1)"
    using cl by (simp add: SendEvent_def)
  ultimately show ?thesis
    using c cl cnt Close_again [OF cl] by blast
qed

theorem Close_idempotent_writes_fail_witness:
  "\<exists>cs1. Close (newCallSession ''L1'' ''S1'' ''CA1'' \<lparr>conn_closed = False, conn_written = []\<rparr>)
           = Inr (None, cs1)
     \<and> Closed cs1 \<and> ClosedCount cs1 = 1
     \<and> Close cs1 = Inr (None, cs1)
     \<and> Close_times 3 (newCallSession ''L1'' ''S1'' ''CA1'' \<lparr>conn_closed = False, conn_written = []\<rparr>)
         = Inr cs1
     \<and> streamAudioToSignalWire (\<lambda>b. ''AAAA'') cs1 [0xFF] = Inr (Some ''session closed'', cs1)
     \<and> SendEvent cs1 ''connected'' [] = Inr (Some ''session closed'', cs1)"
  using Close_idempotent_writes_fail
    [of "newCallSession ''L1'' ''S1'' ''CA1'' \<lparr>conn_closed = False, conn_written = []\<rparr>"
        2 "\<lambda>b. ''AAAA''" "[0xFF]" "''connected''" "[]"]
  by (simp add: newCallSession_def make_chan_def numeral_3_eq_3)

text \<open>
  C1. A frame enqueued on a queue after the queue was closed should come back as a
  \<open>Closed\<close> error. An inbound media event handled after \<open>Close\<close> sends on the closed
  \<open>AudioInChan\<close>, and the router forwarding a chunk after \<open>CloseSession\<close> sends on the
  closed \<open>phoneToAIChan\<close>: both panic. Unlike \<open>streamAudioToSignalWire\<close> and \<open>SendEvent\<close>,
  \<open>handleMediaEvent\<close> does not look at \<open>Closed\<close> before it sends.
\<close>

theorem enqueue_after_close_panics:
  "\<exists>cs1 bridge1 session1.
     Close (newCallSession ''L1'' ''S1'' ''CA1'' \<lparr>conn_closed = False, conn_written = []\<rparr>)
       = Inr (None, cs1)
     \<and> handleMediaEvent (\<lambda>payload. Inr [0xFF, 0xFF, 0xFF]) cs1
          [(''event'', JString ''media''),
           (''media'', JObject [(''track'', JString ''inbound''), (''payload'', JString ''////'')])]
         = Inl SendOnClosedChannel
     \<and> CloseSession (snd (CreateSession NewAudioStreamBridge ''S1'')) ''S1'' = Inr (None, bridge1)
     \<and> heap bridge1 0 = Some session1
     \<and> routePhoneToAI_chunk session1 [0xFF, 0xFF, 0xFF] 0 = Inl SendOnClosedChannel"
  by (simp add: Close_def newCallSession_def make_chan_def close_chan_def handleMediaEvent_def
      send_or_timeout_def CloseSession_def CreateSession_def NewAudioStreamBridge_def
      newBridgeSession_def routePhoneToAI_chunk_def processIncomingAudio_def)

section \<open>Properties of the registry and of the metrics\<close>

text \<open>
  C3, as stated. After \<open>CreateSession\<close> of \<open>S1\<close>, the second of two calls of
  \<open>CloseSession\<close> finds no entry and returns the error \<open>session not found: S1\<close>.
\<close>

theorem CloseSession_twice_counterexample:
  "\<not> no_close_errors 2 (snd (CreateSession NewAudioStreamBridge ''S1'')) ''S1''"
  by (simp add: no_close_errors_def CreateSession_def NewAudioStreamBridge_def CloseSession_def
      newBridgeSession_def make_chan_def close_chan_def numeral_2_eq_2)

text \<open>
  C3, amended. For a session in the map whose queues are open, the first \<open>CloseSession\<close>
  returns nil, marks the session inactive, cancels its context, closes both queues and
  removes the entry, so that \<open>GetSession\<close> returns nil. Every later call returns the error
  \<open>session not found\<close> and leaves the registry as the first call left it: no queue is closed
  a second time, and \<open>n + 1\<close> calls end in the state of one call.
\<close>

theorem CloseSession_idempotent:
  assumes "sessions bridge sessionID = Some a"
    and "heap bridge a = Some session"
    and "\<not> ch_closed (phoneToAIChan session)" and "\<not> ch_closed (aiToPhoneChan session)"
  shows "\<exists>bridge' session'.
           CloseSession bridge sessionID = Inr (None, bridge')
           \<and> heap bridge' a = Some session'
           \<and> \<not> Active session' \<and> cancelled session'
           \<and> ch_closed (phoneToAIChan session') \<and> ch_closed (aiToPhoneChan session')
           \<and> GetSession bridge' sessionID = None
           \<and> CloseSession bridge' sessionID = Inr (Some (''session not found: '' @ sessionID), bridge')
           \<and> CloseSession_times (Suc n) bridge sessionID
               = Inr (None # replicate n (Some (''session not found: '' @ sessionID)), bridge')"
proof -
  obtain bridge' where b': "CloseSession bridge sessionID = Inr (None, bridge')"
    and gone: "sessions bridge' sessionID = None"
    and st: "heap bridge' a = Some (session\<lparr>Active := False, cancelled := True,
          phoneToAIChan := (phoneToAIChan session)\<lparr>ch_closed := True\<rparr>,
          aiToPhoneChan := (aiToPhoneChan session)\<lparr>ch_closed := True\<rparr>\<rparr>)"
    using assms by (simp add: CloseSession_def close_chan_def)
  have again: "CloseSession bridge' sessionID = Inr (Some (''session not found: '' @ sessionID), bridge')"
    using gone by (simp add: CloseSession_def)
  have rest: "CloseSession_times k bridge' sessionID
      = Inr (replicate k (Some (''session not found: '' @ sessionID)), bridge')" for k
    by (induction k) (simp_all add: again)
  have "CloseSession_times (Suc n) bridge sessionID
      = Inr (None # replicate n (Some (''session not found: '' @ sessionID)), bridge')"
    by (simp add: b' rest)
  with b' gone st again show ?thesis
    by (simp add: GetSession_def)
qed

theorem CloseSession_idempotent_witness:
  "\<exists>bridge' session'.
     CloseSession (snd (CreateSession NewAudioStreamBridge ''S1'')) ''S1'' = Inr (None, bridge')
     \<and> heap bridge' 0 = Some session'
     \<and> \<not> Active session' \<and> cancelled session'
     \<and> ch_closed (phoneToAIChan session') \<and> ch_closed (aiToPhoneChan session')
     \<and> GetSession bridge' ''S1'' = None
     \<and> CloseSession bridge' ''S1'' = Inr (Some ''session not found: S1'', bridge')
     \<and> CloseSession_times 3 (snd (CreateSession NewAudioStreamBridge ''S1'')) ''S1''
         = Inr ([None, Some ''session not found: S1'', Some ''session not found: S1''], bridge')"
proof -
  have s: "sessions (snd (CreateSession NewAudioStreamBridge ''S1'')) ''S1'' = Some 0"
    and h: "heap (snd (CreateSession NewAudioStreamBridge ''S1'')) 0
              = Some (newBridgeSession ''S1'' False)"
    by (simp_all add: CreateSession_def NewAudioStreamBridge_def)
  have o1: "\<not> ch_closed (phoneToAIChan (newBridgeSession ''S1'' False))"
    and o2: "\<not> ch_closed (aiToPhoneChan (newBridgeSession ''S1'' False))"
    by (simp_all add: newBridgeSession_def make_chan_def)
  show ?thesis
    using CloseSession_idempotent [OF s h o1 o2, of 2]
    by (simp add: numeral_3_eq_3 numeral_2_eq_2)
qed












section \<open>Properties of the queues\<close>














section \<open>Properties of the encoder\<close>



















end
